theory Spec2Isabelle
  imports Main
begin

section \<open>JavaScript primitives used by the services\<close>

text \<open>
  Strings are lists of characters; the inputs the services receive here are ASCII, so a
  character stands for one UTF-16 code unit. Numbers are integers: the services only add,
  multiply and compare whole minutes and milliseconds, and a JavaScript number holds every
  integer up to \<open>2^53 - 1\<close> exactly. Where a call would compute with another number
  (a negative one, a fraction, an infinity, an integer beyond that bound), the model says
  so with a result of its own and computes nothing.
\<close>

subsection \<open>Strings\<close>

definition isSpace :: "char \<Rightarrow> bool" where
  \<comment> \<open>the ASCII members of the regular expression class \<open>\s\<close>\<close>
  "isSpace c = (c \<in> set [CHR '' '', CHR 0x09, CHR 0x0A, CHR 0x0B, CHR 0x0C, CHR 0x0D])"

definition isDigit :: "char \<Rightarrow> bool" where
  "isDigit c = (c \<in> set ''0123456789'')"

definition trim :: "string \<Rightarrow> string" where
  "trim s = rev (dropWhile isSpace (rev (dropWhile isSpace s)))"

definition upperChars :: string where
  "upperChars = ''ABCDEFGHIJKLMNOPQRSTUVWXYZ''"

definition lowerChars :: string where
  "lowerChars = ''abcdefghijklmnopqrstuvwxyz''"

definition toLowerCase :: "string \<Rightarrow> string" where
  "toLowerCase s =
     map (\<lambda>c. case map_of (zip upperChars lowerChars) c of Some d \<Rightarrow> d | None \<Rightarrow> c) s"

definition toUpperCase :: "string \<Rightarrow> string" where
  "toUpperCase s =
     map (\<lambda>c. case map_of (zip lowerChars upperChars) c of Some d \<Rightarrow> d | None \<Rightarrow> c) s"

fun split_on :: "char \<Rightarrow> string \<Rightarrow> string list" where
  \<comment> \<open>\<open>s.split(sep)\<close> for a one-character separator; the empty string splits into \<open>[""]\<close>\<close>
  "split_on sep [] = [[]]"
| "split_on sep (c # cs) =
     (if c = sep then [] # split_on sep cs
      else (case split_on sep cs of
              [] \<Rightarrow> [[c]]
            | p # ps \<Rightarrow> (c # p) # ps))"

fun join :: "string \<Rightarrow> string list \<Rightarrow> string" where
  "join sep [] = []"
| "join sep [x] = x"
| "join sep (x # y # ys) = x @ sep @ join sep (y # ys)"

definition padStart :: "nat \<Rightarrow> char \<Rightarrow> string \<Rightarrow> string" where
  "padStart n c s = replicate (n - length s) c @ s"

definition takeLast :: "nat \<Rightarrow> string \<Rightarrow> string" where
  \<comment> \<open>\<open>s.slice(-n)\<close>\<close>
  "takeLast n s = drop (length s - n) s"

subsection \<open>Numbers and their decimal form\<close>

definition digitChars :: string where
  "digitChars = ''0123456789''"

function showDigits :: "int \<Rightarrow> string" where
  \<comment> \<open>the decimal digits of a number that is not negative\<close>
  "showDigits n =
     (if n < 10 then [digitChars ! nat n]
      else showDigits (n div 10) @ [digitChars ! nat (n mod 10)])"
  by pat_completeness auto
termination
  by (relation "measure nat") auto

declare showDigits.simps [simp del]

definition numToString :: "int \<Rightarrow> string" where
  \<comment> \<open>\<open>n.toString()\<close> of an integer\<close>
  "numToString i = (if i < 0 then CHR ''-'' # showDigits (- i) else showDigits i)"

definition digitVal :: "char \<Rightarrow> int" where
  "digitVal c = int (length (takeWhile (\<lambda>d. d \<noteq> c) digitChars))"

definition decimalValue :: "string \<Rightarrow> int" where
  "decimalValue s = foldl (\<lambda>n c. 10 * n + digitVal c) 0 s"

definition jsRem :: "int \<Rightarrow> int \<Rightarrow> int" where
  \<comment> \<open>the \<open>%\<close> operator: the remainder has the sign of the dividend\<close>
  "jsRem a b = (if 0 \<le> a then a mod \<bar>b\<bar> else - ((- a) mod \<bar>b\<bar>))"


subsection \<open>Regular expressions\<close>

text \<open>
  The services test strings against anchored patterns (\<open>^...$\<close>). A pattern is a term
  of \<open>rexp\<close>; \<open>matches\<close> decides it by taking the derivative of the pattern by each
  character in turn.
\<close>

datatype rexp =
    Fail
  | Eps
  | Cls "char list"
  | NCls "char list"
  | Seq rexp rexp
  | Alt rexp rexp
  | Star rexp

fun nullable :: "rexp \<Rightarrow> bool" where
  "nullable Fail = False"
| "nullable Eps = True"
| "nullable (Cls cs) = False"
| "nullable (NCls cs) = False"
| "nullable (Seq r s) = (nullable r \<and> nullable s)"
| "nullable (Alt r s) = (nullable r \<or> nullable s)"
| "nullable (Star r) = True"

fun seq :: "rexp \<Rightarrow> rexp \<Rightarrow> rexp" where
  \<comment> \<open>sequence, dropping a branch that can match nothing\<close>
  "seq Fail s = Fail"
| "seq r Fail = Fail"
| "seq Eps s = s"
| "seq r s = Seq r s"

fun alt :: "rexp \<Rightarrow> rexp \<Rightarrow> rexp" where
  "alt Fail s = s"
| "alt r Fail = r"
| "alt r s = Alt r s"

fun deriv :: "char \<Rightarrow> rexp \<Rightarrow> rexp" where
  "deriv c Fail = Fail"
| "deriv c Eps = Fail"
| "deriv c (Cls cs) = (if c \<in> set cs then Eps else Fail)"
| "deriv c (NCls cs) = (if c \<in> set cs then Fail else Eps)"
| "deriv c (Seq r s) =
     (if nullable r then alt (seq (deriv c r) s) (deriv c s) else seq (deriv c r) s)"
| "deriv c (Alt r s) = alt (deriv c r) (deriv c s)"
| "deriv c (Star r) = seq (deriv c r) (Star r)"

definition matches :: "rexp \<Rightarrow> string \<Rightarrow> bool" where
  "matches r s = nullable (foldl (\<lambda>r c. deriv c r) r s)"

definition Opt :: "rexp \<Rightarrow> rexp" where
  \<comment> \<open>\<open>r?\<close>\<close>
  "Opt r = Alt Eps r"

definition Plus :: "rexp \<Rightarrow> rexp" where
  \<comment> \<open>\<open>r+\<close>\<close>
  "Plus r = Seq r (Star r)"

fun upTo :: "nat \<Rightarrow> rexp \<Rightarrow> rexp" where
  \<comment> \<open>\<open>r{0,n}\<close>\<close>
  "upTo 0 r = Eps"
| "upTo (Suc n) r = Opt (Seq r (upTo n r))"

fun times :: "nat \<Rightarrow> rexp \<Rightarrow> rexp" where
  \<comment> \<open>\<open>r{n}\<close>\<close>
  "times 0 r = Eps"
| "times (Suc n) r = Seq r (times n r)"

definition spaceChars :: "char list" where
  "spaceChars = [CHR '' '', CHR 0x09, CHR 0x0A, CHR 0x0B, CHR 0x0C, CHR 0x0D]"

subsection \<open>Reading a number from a string\<close>

definition MAX_SAFE_INTEGER :: int where
  \<comment> \<open>\<open>2^53 - 1\<close>: up to here every integer is a JavaScript number, and sums and
      products of such integers that stay within it are exact\<close>
  "MAX_SAFE_INTEGER = 9007199254740991"

datatype jsnum =
    Num int  \<comment> \<open>an integer from 0 to \<open>MAX_SAFE_INTEGER\<close>\<close>
  | NaN
  | Unmodelled  \<comment> \<open>some other value, which the model does not determine\<close>

fun lit :: "string \<Rightarrow> rexp" where
  \<comment> \<open>the pattern that matches exactly this text\<close>
  "lit [] = Eps"
| "lit (c # cs) = Seq (Cls [c]) (lit cs)"

definition exponentPart :: rexp where
  "exponentPart = Seq (Cls ''eE'') (Seq (Opt (Cls ''+-'')) (Plus (Cls digitChars)))"

definition strUnsignedDecimalLiteral :: rexp where
  \<comment> \<open>\<open>Infinity\<close>, digits with an optional fraction and exponent, or a fraction that
      starts with the point\<close>
  "strUnsignedDecimalLiteral =
     Alt (lit ''Infinity'')
       (Alt (Seq (Plus (Cls digitChars))
               (Seq (Opt (Seq (Cls ''.'') (Star (Cls digitChars)))) (Opt exponentPart)))
            (Seq (Cls ''.'') (Seq (Plus (Cls digitChars)) (Opt exponentPart))))"

definition strNumericLiteral :: rexp where
  \<comment> \<open>the texts, white space apart, that \<open>Number\<close> reads as a number: a decimal literal
      with an optional sign, or a binary, octal or hexadecimal integer\<close>
  "strNumericLiteral =
     Alt (Seq (Opt (Cls ''+-'')) strUnsignedDecimalLiteral)
       (Alt (Seq (Cls ''0'') (Seq (Cls ''bB'') (Plus (Cls ''01''))))
          (Alt (Seq (Cls ''0'') (Seq (Cls ''oO'') (Plus (Cls ''01234567''))))
             (Seq (Cls ''0'') (Seq (Cls ''xX'') (Plus (Cls ''0123456789abcdefABCDEF''))))))"

definition jsNumber :: "string \<Rightarrow> jsnum" where
  \<comment> \<open>\<open>Number(s)\<close>. Surrounding white space is ignored and the empty text is 0.
      Unsigned decimal digits within \<open>MAX_SAFE_INTEGER\<close> give that integer; a text that
      is no numeric literal gives \<open>NaN\<close>; the value of any other literal is left
      undetermined.\<close>
  "jsNumber s =
     (let t = trim s in
      if list_all isDigit t \<and> decimalValue t \<le> MAX_SAFE_INTEGER then Num (decimalValue t)
      else if matches strNumericLiteral t then Unmodelled
      else NaN)"

fun hoursAndMinutes :: "jsnum \<Rightarrow> jsnum \<Rightarrow> jsnum" where
  \<comment> \<open>\<open>h * 60 + m\<close>: \<open>NaN\<close> as soon as one operand is\<close>
  "hoursAndMinutes NaN m = NaN"
| "hoursAndMinutes h NaN = NaN"
| "hoursAndMinutes (Num a) (Num b) =
     (if a * 60 + b \<le> MAX_SAFE_INTEGER then Num (a * 60 + b) else Unmodelled)"
| "hoursAndMinutes h m = Unmodelled"

datatype 'a run =
    Returns 'a
  | OutsideModel  \<comment> \<open>the call computes with a value the model does not determine\<close>

subsection \<open>Dates\<close>

text \<open>
  A \<open>Date\<close> is its time value: milliseconds since 1970-01-01T00:00Z, or \<open>NaN\<close> for
  an invalid date. \<open>new Date("YYYY-MM-DD")\<close> is midnight UTC of that calendar date, and
  \<open>toISOString\<close> prints the UTC date, whereas \<open>getDay\<close>, \<open>getDate\<close> and
  \<open>setDate\<close> work in the local time of the runtime. The time zone of the runtime is
  given by two functions: the milliseconds local time is ahead of UTC at a UTC instant,
  and the same for a local time value, which is how a local time is turned back into an
  instant. Across a daylight-saving change the two differ from one day to the next.
\<close>

definition msPerDay :: int where
  "msPerDay = 86400000"

definition daysFromCivil :: "int \<Rightarrow> int \<Rightarrow> int \<Rightarrow> int" where
  \<comment> \<open>days from 1970-01-01 to the given day of the proleptic Gregorian calendar\<close>
  "daysFromCivil y m d =
     (let y' = (if m \<le> 2 then y - 1 else y);
          era = y' div 400;
          yoe = y' - era * 400;
          doy = (153 * (if 2 < m then m - 3 else m + 9) + 2) div 5 + d - 1;
          doe = yoe * 365 + yoe div 4 - yoe div 100 + doy
      in era * 146097 + doe - 719468)"

definition civilFromDays :: "int \<Rightarrow> int \<times> int \<times> int" where
  \<comment> \<open>the year, month and day of a day number\<close>
  "civilFromDays z0 =
     (let z = z0 + 719468;
          era = z div 146097;
          doe = z - era * 146097;
          yoe = (doe - doe div 1460 + doe div 36524 - doe div 146096) div 365;
          doy = doe - (365 * yoe + yoe div 4 - yoe div 100);
          mp = (5 * doy + 2) div 153;
          d = doy - (153 * mp + 2) div 5 + 1;
          m = (if mp < 10 then mp + 3 else mp - 9)
      in (if m \<le> 2 then yoe + era * 400 + 1 else yoe + era * 400, m, d))"

definition parseDate :: "string \<Rightarrow> jsnum" where
  \<comment> \<open>the time value of \<open>new Date(s)\<close>: midnight UTC for a calendar date from 1970
      on written \<open>YYYY-MM-DD\<close>, \<open>NaN\<close> for the empty text; what the runtime makes of
      another text is left undetermined\<close>
  "parseDate s =
     (if s = [] then NaN
      else (case split_on CHR ''-'' s of
              [ys, ms, ds] \<Rightarrow>
                if length ys = 4 \<and> length ms = 2 \<and> length ds = 2
                   \<and> list_all isDigit ys \<and> list_all isDigit ms \<and> list_all isDigit ds
                   \<and> civilFromDays
                         (daysFromCivil (decimalValue ys) (decimalValue ms) (decimalValue ds))
                       = (decimalValue ys, decimalValue ms, decimalValue ds)
                   \<and> 0 \<le> daysFromCivil (decimalValue ys) (decimalValue ms) (decimalValue ds)
                then Num (daysFromCivil (decimalValue ys) (decimalValue ms) (decimalValue ds)
                          * msPerDay)
                else Unmodelled
            | _ \<Rightarrow> Unmodelled))"

definition toISODate :: "int \<Rightarrow> string" where
  \<comment> \<open>\<open>date.toISOString().split('T')[0]\<close>, for the years 0000 to 9999\<close>
  "toISODate t =
     (case civilFromDays (t div msPerDay) of
        (y, m, d) \<Rightarrow>
          padStart 4 CHR ''0'' (numToString y) @ ''-'' @ padStart 2 CHR ''0'' (numToString m)
            @ ''-'' @ padStart 2 CHR ''0'' (numToString d))"

record TimeZone =
  offsetAtUTC :: "int \<Rightarrow> int"
  offsetAtLocal :: "int \<Rightarrow> int"

definition fixedZone :: "int \<Rightarrow> TimeZone" where
  \<comment> \<open>a zone that is always \<open>c\<close> milliseconds ahead of UTC\<close>
  "fixedZone c = \<lparr>offsetAtUTC = (\<lambda>t. c), offsetAtLocal = (\<lambda>t. c)\<rparr>"

definition getDay :: "TimeZone \<Rightarrow> int \<Rightarrow> int" where
  \<comment> \<open>\<open>date.getDay()\<close>: the local day of the week, 0 for Sunday; 1970-01-01 was a Thursday\<close>
  "getDay z t = ((t + offsetAtUTC z t) div msPerDay + 4) mod 7"

definition nextDay :: "TimeZone \<Rightarrow> int \<Rightarrow> int" where
  \<comment> \<open>\<open>date.setDate(date.getDate() + 1)\<close>: the same local time of day on the next local
      day, turned back into an instant\<close>
  "nextDay z t =
     (let localTime = t + offsetAtUTC z t + msPerDay
      in localTime - offsetAtLocal z localTime)"

definition utcDay :: "int \<Rightarrow> int" where
  \<comment> \<open>the day of the week of the UTC calendar date, 0 for Sunday\<close>
  "utcDay t = (t div msPerDay + 4) mod 7"

section \<open>Data model (types/appointment.ts)\<close>

record TimeSlot =
  slotId :: string  \<comment> \<open>the field \<open>id\<close>\<close>
  date :: string
  startTime :: string
  endTime :: string
  isAvailable :: bool
  bookedBy :: "string option"

record ContactInfo =
  name :: string
  phone :: string
  email :: string

record BookingConfirmation =
  confName :: string  \<comment> \<open>the field \<open>name\<close>\<close>
  confPhone :: string  \<comment> \<open>the field \<open>phone\<close>\<close>
  confEmail :: string  \<comment> \<open>the field \<open>email\<close>\<close>
  selectedSlot :: TimeSlot
  confConfirmationId :: string  \<comment> \<open>the field \<open>confirmationId\<close>\<close>

datatype BookingStatus = CONFIRMED | CANCELLED | PENDING

record Booking =
  bookingId :: string  \<comment> \<open>the field \<open>id\<close>\<close>
  contactInfo :: ContactInfo
  timeSlot :: TimeSlot
  status :: BookingStatus
  createdAt :: int  \<comment> \<open>the instant whose ISO 8601 text the source stores\<close>
  confirmationId :: string

datatype ValidationErrorType =
    REQUIRED_FIELD | INVALID_EMAIL | INVALID_PHONE | INVALID_NAME
  | SLOT_UNAVAILABLE | BOOKING_CONFLICT

record ValidationError =
  field :: string
  errType :: ValidationErrorType  \<comment> \<open>the field \<open>type\<close>\<close>
  message :: string

record ValidationResult =
  isValid :: bool
  errors :: "ValidationError list"

section \<open>CalendarService\<close>

text \<open>
  The service holds the set \<open>reservedSlots\<close> and the map \<open>bookedSlots\<close>. A
  reservation arms a \<open>setTimeout\<close> whose callback deletes the slot id from
  \<open>reservedSlots\<close>; the armed callbacks are the list \<open>timers\<close>, each with the
  instant it falls due. Every method takes the state and returns the new one; a method
  that reads the clock or arms a timer takes the current instant \<open>now\<close>. The interval
  of the slots is a whole number of minutes.
\<close>

record CalendarService =
  reservedSlots :: "string set"
  bookedSlots :: "string \<rightharpoonup> string"
  timers :: "(int \<times> string) list"

definition has :: "('k \<rightharpoonup> 'v) \<Rightarrow> 'k \<Rightarrow> bool" where
  \<comment> \<open>\<open>map.has(key)\<close>\<close>
  "has m k = (case m k of None \<Rightarrow> False | Some v \<Rightarrow> True)"

definition emptyCalendar :: CalendarService where
  "emptyCalendar = \<lparr>reservedSlots = {}, bookedSlots = Map.empty, timers = []\<rparr>"

definition minutesToTimeString :: "int \<Rightarrow> string" where
  "minutesToTimeString minutes =
     (let hours = minutes div 60;
          mins = jsRem minutes 60
      in padStart 2 CHR ''0'' (numToString hours) @ '':''
           @ padStart 2 CHR ''0'' (numToString mins))"

definition timeToMinutes :: "string \<Rightarrow> jsnum" where
  \<comment> \<open>\<open>const [h, m] = time.split(':').map(Number); h * 60 + m\<close>; a part that is
      missing is \<open>undefined\<close> and makes the sum \<open>NaN\<close>\<close>
  "timeToMinutes time =
     (case map jsNumber (split_on CHR '':'' time) of
        h # m # _ \<Rightarrow> hoursAndMinutes h m
      | _ \<Rightarrow> NaN)"

definition isSlotAvailable :: "CalendarService \<Rightarrow> string \<Rightarrow> bool" where
  "isSlotAvailable cal sid = (\<not> has (bookedSlots cal) sid \<and> sid \<notin> reservedSlots cal)"

definition mkSlot :: "CalendarService \<Rightarrow> string \<Rightarrow> int \<Rightarrow> int \<Rightarrow> TimeSlot" where
  \<comment> \<open>the body of the loop of \<open>generateDailySlots\<close>\<close>
  "mkSlot cal d minutes intervalMinutes =
     (let slotStartTime = minutesToTimeString minutes;
          slotEndTime = minutesToTimeString (minutes + intervalMinutes);
          sid = d @ ''_'' @ slotStartTime
      in \<lparr>slotId = sid, date = d, startTime = slotStartTime, endTime = slotEndTime,
          isAvailable = (\<not> has (bookedSlots cal) sid \<and> sid \<notin> reservedSlots cal),
          bookedBy = bookedSlots cal sid\<rparr>)"

partial_function (option) dailyLoop ::
  "CalendarService \<Rightarrow> string \<Rightarrow> int \<Rightarrow> int \<Rightarrow> int \<Rightarrow> TimeSlot list \<Rightarrow> TimeSlot list option"
where
  "dailyLoop cal d minutes endMinutes intervalMinutes slots =
     (if minutes < endMinutes
      then dailyLoop cal d (minutes + intervalMinutes) endMinutes intervalMinutes
             (slots @ [mkSlot cal d minutes intervalMinutes])
      else Some slots)"

declare dailyLoop.simps [code]

fun dailySlotsBetween ::
  "CalendarService \<Rightarrow> string \<Rightarrow> jsnum \<Rightarrow> jsnum \<Rightarrow> int \<Rightarrow> TimeSlot list run option" where
  \<comment> \<open>the loop of \<open>generateDailySlots\<close> from its two bounds. A bound that is \<open>NaN\<close>
      makes the loop test false. With a positive interval every number of the loop stays
      below \<open>endMinutes + intervalMinutes\<close>.\<close>
  "dailySlotsBetween cal d NaN endMinutes intervalMinutes = Some (Returns [])"
| "dailySlotsBetween cal d startMinutes NaN intervalMinutes = Some (Returns [])"
| "dailySlotsBetween cal d (Num a) (Num b) intervalMinutes =
     (if a < b \<and> 0 < intervalMinutes \<and> MAX_SAFE_INTEGER < b + intervalMinutes
      then Some OutsideModel
      else map_option Returns (dailyLoop cal d a b intervalMinutes []))"
| "dailySlotsBetween cal d startMinutes endMinutes intervalMinutes = Some OutsideModel"

definition generateDailySlots ::
  "CalendarService \<Rightarrow> string \<Rightarrow> string \<Rightarrow> string \<Rightarrow> int \<Rightarrow> TimeSlot list run option" where
  \<comment> \<open>\<open>None\<close>: the loop never ends\<close>
  "generateDailySlots cal d startT endT intervalMinutes =
     dailySlotsBetween cal d (timeToMinutes startT) (timeToMinutes endT) intervalMinutes"

partial_function (option) dayLoop ::
  "TimeZone \<Rightarrow> CalendarService \<Rightarrow> int \<Rightarrow> int \<Rightarrow> string \<Rightarrow> string \<Rightarrow> int \<Rightarrow> TimeSlot list
     \<Rightarrow> TimeSlot list run option"
where
  "dayLoop z cal day end startT endT intervalMinutes slots =
     (if day \<le> end
      then (if getDay z day = 0 \<or> getDay z day = 6
            then dayLoop z cal (nextDay z day) end startT endT intervalMinutes slots
            else (case generateDailySlots cal (toISODate day) startT endT intervalMinutes of
                    None \<Rightarrow> None
                  | Some OutsideModel \<Rightarrow> Some OutsideModel
                  | Some (Returns dailySlots) \<Rightarrow>
                      dayLoop z cal (nextDay z day) end startT endT intervalMinutes
                        (slots @ dailySlots)))
      else Some (Returns slots))"

declare dayLoop.simps [code]

fun slotsBetween ::
  "TimeZone \<Rightarrow> CalendarService \<Rightarrow> jsnum \<Rightarrow> jsnum \<Rightarrow> string \<Rightarrow> string \<Rightarrow> int
     \<Rightarrow> TimeSlot list run option" where
  \<comment> \<open>the loop of \<open>generateTimeSlots\<close> from its two dates; an invalid date makes the
      loop test false\<close>
  "slotsBetween z cal NaN end startT endT intervalMinutes = Some (Returns [])"
| "slotsBetween z cal start NaN startT endT intervalMinutes = Some (Returns [])"
| "slotsBetween z cal (Num start) (Num end) startT endT intervalMinutes =
     dayLoop z cal start end startT endT intervalMinutes []"
| "slotsBetween z cal start end startT endT intervalMinutes = Some OutsideModel"

definition generateTimeSlots ::
  "TimeZone \<Rightarrow> CalendarService \<Rightarrow> string \<Rightarrow> string \<Rightarrow> string \<Rightarrow> string \<Rightarrow> int
     \<Rightarrow> TimeSlot list run option" where
  \<comment> \<open>\<open>None\<close>: a loop never ends\<close>
  "generateTimeSlots z cal startDate endDate startT endT intervalMinutes =
     slotsBetween z cal (parseDate startDate) (parseDate endDate) startT endT intervalMinutes"

definition timerDelay :: "int \<Rightarrow> int" where
  \<comment> \<open>\<open>setTimeout\<close> takes a delay from 1 to \<open>2^31 - 1\<close> milliseconds as given and
      sets every other delay to 1\<close>
  "timerDelay ms = (if 1 \<le> ms \<and> ms \<le> 2147483647 then ms else 1)"

definition cal_reserveSlot ::
  "int \<Rightarrow> CalendarService \<Rightarrow> string \<Rightarrow> int \<Rightarrow> bool \<times> CalendarService" where
  \<comment> \<open>the callback falls due when the delay that \<open>setTimeout\<close> makes of
      \<open>reservationTimeoutMs\<close> has passed since the call\<close>
  "cal_reserveSlot now cal sid reservationTimeoutMs =
     (if has (bookedSlots cal) sid \<or> sid \<in> reservedSlots cal then (False, cal)
      else (True, cal\<lparr>reservedSlots := insert sid (reservedSlots cal),
                       timers := timers cal @ [(now + timerDelay reservationTimeoutMs, sid)]\<rparr>))"

definition runTimers :: "int \<Rightarrow> CalendarService \<Rightarrow> CalendarService" where
  \<comment> \<open>the callbacks that are due at \<open>now\<close> run: each deletes its slot id from
      \<open>reservedSlots\<close>\<close>
  "runTimers now cal =
     cal\<lparr>reservedSlots :=
           reservedSlots cal - set (map snd (filter (\<lambda>t. fst t \<le> now) (timers cal))),
         timers := filter (\<lambda>t. now < fst t) (timers cal)\<rparr>"

definition bookSlot :: "CalendarService \<Rightarrow> string \<Rightarrow> string \<Rightarrow> bool \<times> CalendarService" where
  "bookSlot cal sid uid =
     (if has (bookedSlots cal) sid then (False, cal)
      else (True, cal\<lparr>reservedSlots := reservedSlots cal - {sid},
                       bookedSlots := (bookedSlots cal)(sid \<mapsto> uid)\<rparr>))"

definition cal_cancelBooking ::
  "CalendarService \<Rightarrow> string \<Rightarrow> string \<Rightarrow> bool \<times> CalendarService" where
  "cal_cancelBooking cal sid uid =
     (if bookedSlots cal sid \<noteq> Some uid then (False, cal)
      else (True, cal\<lparr>bookedSlots := (bookedSlots cal)(sid := None)\<rparr>))"


definition clearReservations :: "CalendarService \<Rightarrow> CalendarService" where
  "clearReservations cal = cal\<lparr>reservedSlots := {}\<rparr>"

definition clearBookings :: "CalendarService \<Rightarrow> CalendarService" where
  "clearBookings cal = cal\<lparr>bookedSlots := Map.empty\<rparr>"

section \<open>BookingService\<close>

text \<open>
  The service keeps its own maps \<open>bookings\<close> and \<open>reservations\<close> and calls the
  calendar service, whose state is carried along in the field \<open>calendarService\<close>.
  Writing to \<open>localStorage\<close> changes nothing the methods read back and is left out.
  A method reads the clock once: \<open>now\<close> is that instant. The random suffixes of the
  two identifiers are the parameters \<open>rnd1\<close> and \<open>rnd2\<close>. The result of
  \<open>createBooking\<close> is the confirmation or a \<open>BookingError\<close>, whose text
  \<open>errorMessage\<close> gives; nothing in the method throws, so the text of its
  \<open>catch\<close> branch is never returned.
\<close>

record Reservation =
  userId :: string
  expiresAt :: int

record BookingService =
  calendarService :: CalendarService
  bookings :: "string \<rightharpoonup> Booking"
  reservations :: "string \<rightharpoonup> Reservation"

datatype BookingError =
    ValidationFailed "ValidationError list"
  | SlotUnavailable
  | ReservedByOther
  | BookingConflict

definition errorMessage :: "BookingError \<Rightarrow> string" where
  \<comment> \<open>the text the source returns in the field \<open>error\<close>\<close>
  "errorMessage e =
     (case e of
        ValidationFailed es \<Rightarrow> ''Validation failed: '' @ join '', '' (map message es)
      | SlotUnavailable \<Rightarrow> ''Selected time slot is no longer available''
      | ReservedByOther \<Rightarrow> ''Time slot is reserved by another user''
      | BookingConflict \<Rightarrow> ''Failed to book time slot - conflict detected'')"

definition emptyService :: BookingService where
  "emptyService =
     \<lparr>calendarService = emptyCalendar, bookings = Map.empty, reservations = Map.empty\<rparr>"

definition RESERVATION_TIMEOUT :: int where
  "RESERVATION_TIMEOUT = 5 * 60 * 1000"

definition sanitizeString :: "string \<Rightarrow> string" where
  "sanitizeString input =
     (if input = [] then []
      else take 255
             (filter (\<lambda>c. c \<notin> set [CHR ''<'', CHR ''>'', CHR 0x22, CHR 0x27, CHR ''&''])
                (trim input)))"

definition emailRegex :: rexp where
  \<comment> \<open>\<open>/^[^\s@]+@[^\s@]+\.[^\s@]+$/\<close>\<close>
  "emailRegex =
     Seq (Plus (NCls (spaceChars @ ''@'')))
       (Seq (Cls ''@'')
          (Seq (Plus (NCls (spaceChars @ ''@'')))
             (Seq (Cls ''.'') (Plus (NCls (spaceChars @ ''@''))))))"

definition phoneRegex :: rexp where
  \<comment> \<open>\<open>/^[\+]?[1-9][\d]{0,15}$/\<close>\<close>
  "phoneRegex = Seq (Opt (Cls ''+'')) (Seq (Cls ''123456789'') (upTo 15 (Cls digitChars)))"

definition validateContactInfo :: "ContactInfo \<Rightarrow> ValidationResult" where
  "validateContactInfo ci =
     (let sanitizedName = sanitizeString (name ci);
          nameErrors =
            (if sanitizedName = [] \<or> length sanitizedName < 2
             then [\<lparr>field = ''name'', errType = REQUIRED_FIELD,
                     message = ''Name must be at least 2 characters long''\<rparr>]
             else []);
          sanitizedEmail = sanitizeString (email ci);
          emailErrors =
            (if sanitizedEmail = [] \<or> \<not> matches emailRegex sanitizedEmail
             then [\<lparr>field = ''email'', errType = INVALID_EMAIL,
                     message = ''Please enter a valid email address''\<rparr>]
             else []);
          sanitizedPhone = sanitizeString (phone ci);
          cleanPhone =
            filter (\<lambda>c. \<not> isSpace c \<and> c \<notin> set ''-()'') sanitizedPhone;
          phoneErrors =
            (if sanitizedPhone = [] \<or> \<not> matches phoneRegex cleanPhone
             then [\<lparr>field = ''phone'', errType = INVALID_PHONE,
                     message = ''Please enter a valid phone number''\<rparr>]
             else []);
          errs = nameErrors @ emailErrors @ phoneErrors
      in \<lparr>isValid = (errs = []), errors = errs\<rparr>)"

definition sanitizeContactInfo :: "ContactInfo \<Rightarrow> ContactInfo" where
  "sanitizeContactInfo ci =
     \<lparr>name = sanitizeString (name ci),
      phone = sanitizeString (phone ci),
      email = toLowerCase (sanitizeString (email ci))\<rparr>"

definition generateBookingId :: "int \<Rightarrow> string \<Rightarrow> string" where
  "generateBookingId now rnd = ''booking_'' @ numToString now @ ''_'' @ rnd"

definition generateConfirmationId :: "int \<Rightarrow> string \<Rightarrow> string" where
  "generateConfirmationId now rnd = ''CONF'' @ takeLast 6 (numToString now) @ toUpperCase rnd"

definition createBooking ::
  "int \<Rightarrow> string \<Rightarrow> string \<Rightarrow> BookingService \<Rightarrow> ContactInfo \<Rightarrow> TimeSlot \<Rightarrow> string
     \<Rightarrow> (BookingError + BookingConfirmation) \<times> BookingService" where
  "createBooking now rnd1 rnd2 bs ci ts uid =
     (let validationResult = validateContactInfo ci in
      if \<not> isValid validationResult
      then (Inl (ValidationFailed (errors validationResult)), bs)
      else if \<not> isSlotAvailable (calendarService bs) (slotId ts)
      then (Inl SlotUnavailable, bs)
      else if (case reservations bs (slotId ts) of
                 Some reservation \<Rightarrow> userId reservation \<noteq> uid
               | None \<Rightarrow> False)
      then (Inl ReservedByOther, bs)
      else (case bookSlot (calendarService bs) (slotId ts) uid of
              (False, cal') \<Rightarrow> (Inl BookingConflict, bs)
            | (True, cal') \<Rightarrow>
                (let booking =
                       \<lparr>bookingId = generateBookingId now rnd1,
                        contactInfo = sanitizeContactInfo ci,
                        timeSlot = ts\<lparr>isAvailable := False, bookedBy := Some uid\<rparr>,
                        status = CONFIRMED,
                        createdAt = now,
                        confirmationId = generateConfirmationId now rnd2\<rparr>
                 in (Inr \<lparr>confName = name (contactInfo booking),
                          confPhone = phone (contactInfo booking),
                          confEmail = email (contactInfo booking),
                          selectedSlot = timeSlot booking,
                          confConfirmationId = confirmationId booking\<rparr>,
                     bs\<lparr>calendarService := cal',
                        bookings := (bookings bs)(bookingId booking \<mapsto> booking),
                        reservations := (reservations bs)(slotId ts := None)\<rparr>))))"

definition reserveSlot ::
  "int \<Rightarrow> BookingService \<Rightarrow> string \<Rightarrow> string \<Rightarrow> bool \<times> BookingService" where
  "reserveSlot now bs sid uid =
     (if \<not> isSlotAvailable (calendarService bs) sid then (False, bs)
      else if (case reservations bs sid of
                 Some existingReservation \<Rightarrow>
                   userId existingReservation \<noteq> uid \<and> now < expiresAt existingReservation
               | None \<Rightarrow> False)
      then (False, bs)
      else (case cal_reserveSlot now (calendarService bs) sid RESERVATION_TIMEOUT of
              (False, cal') \<Rightarrow> (False, bs)
            | (True, cal') \<Rightarrow>
                (True, bs\<lparr>calendarService := cal',
                          reservations := (reservations bs)
                            (sid \<mapsto> \<lparr>userId = uid,
                                     expiresAt = now + RESERVATION_TIMEOUT\<rparr>)\<rparr>)))"

definition releaseReservation ::
  "BookingService \<Rightarrow> string \<Rightarrow> string \<Rightarrow> bool \<times> BookingService" where
  "releaseReservation bs sid uid =
     (case reservations bs sid of
        None \<Rightarrow> (False, bs)
      | Some reservation \<Rightarrow>
          if userId reservation \<noteq> uid then (False, bs)
          else (True, bs\<lparr>reservations := (reservations bs)(sid := None)\<rparr>))"

definition cancelBooking ::
  "BookingService \<Rightarrow> string \<Rightarrow> string \<Rightarrow> bool \<times> BookingService" where
  "cancelBooking bs bid uid =
     (case bookings bs bid of
        None \<Rightarrow> (False, bs)
      | Some booking \<Rightarrow>
          if bookedBy (timeSlot booking) \<noteq> Some uid then (False, bs)
          else (True,
                bs\<lparr>bookings := (bookings bs)(bid \<mapsto> booking\<lparr>status := CANCELLED\<rparr>),
                   calendarService :=
                     snd (cal_cancelBooking (calendarService bs)
                            (slotId (timeSlot booking)) uid)\<rparr>))"

definition getBooking :: "BookingService \<Rightarrow> string \<Rightarrow> Booking option" where
  "getBooking bs bid = bookings bs bid"


definition cleanupReservations :: "int \<Rightarrow> BookingService \<Rightarrow> BookingService" where
  \<comment> \<open>one run of the callback of \<open>startReservationCleanup\<close>\<close>
  "cleanupReservations now bs =
     bs\<lparr>reservations :=
          (\<lambda>sid. case reservations bs sid of
                    Some reservation \<Rightarrow>
                      if expiresAt reservation \<le> now then None else Some reservation
                  | None \<Rightarrow> None)\<rparr>"

section \<open>Sequences of calendar operations\<close>

datatype CalendarOp =
    ReserveSlot int string int  \<comment> \<open>the instant of the call, the slot id, the timeout\<close>
  | BookSlot string string
  | CancelBooking string string
  | ClearReservations
  | ClearBookings
  | RunTimers int  \<comment> \<open>the due timer callbacks run at this instant\<close>

fun applyOp :: "CalendarOp \<Rightarrow> CalendarService \<Rightarrow> CalendarService" where
  "applyOp (ReserveSlot now sid ms) cal = snd (cal_reserveSlot now cal sid ms)"
| "applyOp (BookSlot sid uid) cal = snd (bookSlot cal sid uid)"
| "applyOp (CancelBooking sid uid) cal = snd (cal_cancelBooking cal sid uid)"
| "applyOp ClearReservations cal = clearReservations cal"
| "applyOp ClearBookings cal = clearBookings cal"
| "applyOp (RunTimers now) cal = runTimers now cal"

definition runOps :: "CalendarOp list \<Rightarrow> CalendarService" where
  \<comment> \<open>the state after the operations, from the empty calendar\<close>
  "runOps ops = foldl (\<lambda>cal op. applyOp op cal) emptyCalendar ops"

section \<open>Form validation (utils/validation.ts)\<close>

definition PHONE_REGEX :: rexp where
  \<comment> \<open>\<open>/^[\+]?[1-9]?[\-\.\s]?\(?[0-9]{3}\)?[\-\.\s]?[0-9]{3}[\-\.\s]?[0-9]{4}$/\<close>\<close>
  "PHONE_REGEX =
     Seq (Opt (Cls ''+''))
       (Seq (Opt (Cls ''123456789''))
          (Seq (Opt (Cls (''-.'' @ spaceChars)))
             (Seq (Opt (Cls ''(''))
                (Seq (times 3 (Cls digitChars))
                   (Seq (Opt (Cls '')''))
                      (Seq (Opt (Cls (''-.'' @ spaceChars)))
                         (Seq (times 3 (Cls digitChars))
                            (Seq (Opt (Cls (''-.'' @ spaceChars)))
                               (times 4 (Cls digitChars))))))))))"

definition validatePhone :: "string \<Rightarrow> ValidationError option" where
  \<comment> \<open>\<open>None\<close> is \<open>null\<close>: the phone number is accepted\<close>
  "validatePhone ph =
     (let trimmedPhone = trim ph in
      if trimmedPhone = []
      then Some \<lparr>field = ''phone'', errType = REQUIRED_FIELD,
                 message = ''Phone number is required''\<rparr>
      else if \<not> matches PHONE_REGEX trimmedPhone
      then Some \<lparr>field = ''phone'', errType = INVALID_PHONE,
                 message = ''Please enter a valid phone number (e.g., (123) 456-7890)''\<rparr>
      else (let digitsOnly = filter isDigit trimmedPhone in
            if length digitsOnly < 10
            then Some \<lparr>field = ''phone'', errType = INVALID_PHONE,
                       message = ''Phone number must be at least 10 digits''\<rparr>
            else if 15 < length digitsOnly
            then Some \<lparr>field = ''phone'', errType = INVALID_PHONE,
                       message = ''Phone number must be less than 15 digits''\<rparr>
            else None))"

section \<open>Slot generation as the specification words it\<close>






section \<open>Scenario data\<close>

definition t0 :: int where
  \<comment> \<open>2024-01-16T08:00:00Z\<close>
  "t0 = 1705392000000"

definition validContact :: ContactInfo where
  "validContact =
     \<lparr>name = ''John Doe'', phone = ''1234567890'', email = ''john@example.com''\<rparr>"

definition shortContact :: ContactInfo where
  "shortContact = \<lparr>name = ''J'', phone = ''1'', email = ''bad''\<rparr>"

definition nameTooShort :: ValidationError where
  "nameTooShort =
     \<lparr>field = ''name'', errType = REQUIRED_FIELD,
      message = ''Name must be at least 2 characters long''\<rparr>"

definition invalidEmail :: ValidationError where
  "invalidEmail =
     \<lparr>field = ''email'', errType = INVALID_EMAIL,
      message = ''Please enter a valid email address''\<rparr>"

definition invalidPhone :: ValidationError where
  "invalidPhone =
     \<lparr>field = ''phone'', errType = INVALID_PHONE,
      message = ''Please enter a valid phone number''\<rparr>"

definition slot0900 :: TimeSlot where
  "slot0900 =
     \<lparr>slotId = ''2024-01-16_09:00'', date = ''2024-01-16'', startTime = ''09:00'',
      endTime = ''09:30'', isAvailable = True, bookedBy = None\<rparr>"


definition datesOf :: "TimeSlot list run option \<Rightarrow> string list" where
  \<comment> \<open>the dates of the slots a call returned\<close>
  "datesOf r = (case r of Some (Returns slots) \<Rightarrow> map date slots | _ \<Rightarrow> [])"

definition berlin2024 :: TimeZone where
  \<comment> \<open>Central European time around the change to summer time on 2024-03-31 at 01:00 UTC:
      one hour ahead of UTC before it and two hours after; a local time in the skipped
      hour counts with the offset before the change\<close>
  "berlin2024 =
     \<lparr>offsetAtUTC = (\<lambda>t. if t < 1711846800000 then 3600000 else 7200000),
      offsetAtLocal = (\<lambda>t. if t < 1711854000000 then 3600000 else 7200000)\<rparr>"

definition heldByA :: BookingService where
  \<comment> \<open>the fresh service after owner A has reserved the 09:00 slot at \<open>t0\<close>\<close>
  "heldByA = snd (reserveSlot t0 emptyService ''2024-01-16_09:00'' ''A'')"

definition refusedB :: BookingService where
  \<comment> \<open>then owner B asks for the same slot a second later\<close>
  "refusedB = snd (reserveSlot (t0 + 1000) heldByA ''2024-01-16_09:00'' ''B'')"

definition releasedByA :: BookingService where
  \<comment> \<open>then owner A releases the reservation\<close>
  "releasedByA = snd (releaseReservation refusedB ''2024-01-16_09:00'' ''A'')"

definition bookedByA :: BookingService where
  \<comment> \<open>the fresh service after owner A has booked the 09:00 slot at \<open>t0\<close>\<close>
  "bookedByA =
     snd (createBooking t0 ''k3x9q2m1z'' ''7fq2'' emptyService validContact slot0900 ''A'')"

definition bookingOfA :: Booking where
  "bookingOfA =
     \<lparr>bookingId = ''booking_1705392000000_k3x9q2m1z'',
      contactInfo = validContact,
      timeSlot = slot0900\<lparr>isAvailable := False, bookedBy := Some ''A''\<rparr>,
      status = CONFIRMED,
      createdAt = t0,
      confirmationId = ''CONF0000007FQ2''\<rparr>"

section \<open>Decimal text and time strings\<close>






lemma isDigit_not_space: "isDigit c \<Longrightarrow> \<not> isSpace c"
  by (auto simp: isDigit_def isSpace_def)

lemma dropWhile_isSpace_digits: "list_all isDigit s \<Longrightarrow> dropWhile isSpace s = s"
  by (cases s) (auto simp: isDigit_not_space)

lemma trim_digits: "list_all isDigit s \<Longrightarrow> trim s = s"
proof -
  assume d: "list_all isDigit s"
  then have "list_all isDigit (rev s)" by (simp add: list_all_iff)
  then have "dropWhile isSpace (rev s) = rev s" by (rule dropWhile_isSpace_digits)
  with d show ?thesis by (simp add: trim_def dropWhile_isSpace_digits)
qed













section \<open>Mutual exclusion of reservation and booking\<close>

lemma applyOp_disjoint:
  assumes inv: "reservedSlots cal \<inter> dom (bookedSlots cal) = {}"
  shows "reservedSlots (applyOp op cal) \<inter> dom (bookedSlots (applyOp op cal)) = {}"
proof (cases op)
  case (ReserveSlot now sid ms)
  then show ?thesis using inv
    by (auto simp: cal_reserveSlot_def has_def split: option.splits)
next
  case (BookSlot sid uid)
  then show ?thesis using inv
    by (auto simp: bookSlot_def has_def split: option.splits)
next
  case (CancelBooking sid uid)
  then show ?thesis using inv by (auto simp: cal_cancelBooking_def)
next
  case ClearReservations
  then show ?thesis by (simp add: clearReservations_def)
next
  case ClearBookings
  then show ?thesis by (simp add: clearBookings_def)
next
  case (RunTimers now)
  then show ?thesis using inv by (auto simp: runTimers_def)
qed

lemma foldl_applyOp_disjoint:
  "reservedSlots cal \<inter> dom (bookedSlots cal) = {}
   \<Longrightarrow> reservedSlots (foldl (\<lambda>c op. applyOp op c) cal ops)
         \<inter> dom (bookedSlots (foldl (\<lambda>c op. applyOp op c) cal ops)) = {}"
proof (induction ops arbitrary: cal)
  case Nil
  then show ?case by simp
next
  case (Cons op ops)
  from Cons.prems
  have "reservedSlots (applyOp op cal) \<inter> dom (bookedSlots (applyOp op cal)) = {}"
    by (rule applyOp_disjoint)
  then show ?case using Cons.IH by simp
qed

text \<open>
  C5. Whatever sequence of \<open>reserveSlot\<close>, \<open>bookSlot\<close>, \<open>cancelBooking\<close>,
  \<open>clearReservations\<close> and \<open>clearBookings\<close> calls (and of timer callbacks) is run from
  the empty calendar, no slot id is in the reserved set and in the booked map at once.
\<close>

theorem mutual_exclusion:
  "\<not> (sid \<in> reservedSlots (runOps ops) \<and> has (bookedSlots (runOps ops)) sid)"
proof -
  have "reservedSlots emptyCalendar \<inter> dom (bookedSlots emptyCalendar) = {}"
    by (simp add: emptyCalendar_def)
  then have "reservedSlots (runOps ops) \<inter> dom (bookedSlots (runOps ops)) = {}"
    unfolding runOps_def by (rule foldl_applyOp_disjoint)
  then show ?thesis by (auto simp: has_def split: option.splits)
qed

section \<open>Cancellation\<close>

text \<open>
  C6. When a booking belongs to owner \<open>owner\<close> and the caller is anyone else,
  \<open>cancelBooking\<close> returns false and the whole state (the booking with its status, the
  booked-slot map and the reserved-slot set) is the one before the call. The calendar's
  own \<open>cancelBooking\<close> behaves the same way on a slot booked by somebody else.
\<close>

theorem cancel_by_other_owner_no_effect:
  "(bookings bs bid = Some booking \<and> bookedBy (timeSlot booking) = Some owner \<and> uid \<noteq> owner
      \<longrightarrow> cancelBooking bs bid uid = (False, bs))
   \<and> (bookedSlots cal sid = Some owner \<and> uid \<noteq> owner
      \<longrightarrow> cal_cancelBooking cal sid uid = (False, cal))"
  by (simp add: cancelBooking_def cal_cancelBooking_def)

theorem cancel_by_other_owner_no_effect_witness:
  "cancelBooking bookedByA ''booking_1705392000000_k3x9q2m1z'' ''B'' = (False, bookedByA)
   \<and> cal_cancelBooking (calendarService bookedByA) ''2024-01-16_09:00'' ''B''
       = (False, calendarService bookedByA)"
proof -
  have b: "bookings bookedByA ''booking_1705392000000_k3x9q2m1z'' = Some bookingOfA"
    by code_simp
  have o: "bookedBy (timeSlot bookingOfA) = Some ''A''"
    by (simp add: bookingOfA_def)
  have c: "bookedSlots (calendarService bookedByA) ''2024-01-16_09:00'' = Some ''A''"
    by code_simp
  have n: "''B'' \<noteq> ''A''"
    by simp
  show ?thesis
    using cancel_by_other_owner_no_effect
      [of bookedByA "''booking_1705392000000_k3x9q2m1z''" bookingOfA "''A''" "''B''"
          "calendarService bookedByA" "''2024-01-16_09:00''"]
      b o c n
    by blast
qed

text \<open>
  C7, as the code has it. After a successful \<open>cancelBooking\<close> the record is still
  returned by \<open>getBooking\<close>, unchanged but for its status, which is \<open>CANCELLED\<close>.
  The method never looks at the status: a second call by the same owner succeeds again
  and leaves the record as it is.
\<close>

theorem cancel_retains_record_and_repeats:
  "fst (cancelBooking bs bid uid)
   \<Longrightarrow> (\<exists>booking. bookings bs bid = Some booking
          \<and> getBooking (snd (cancelBooking bs bid uid)) bid
              = Some (booking\<lparr>status := CANCELLED\<rparr>))
       \<and> fst (cancelBooking (snd (cancelBooking bs bid uid)) bid uid)
       \<and> getBooking (snd (cancelBooking (snd (cancelBooking bs bid uid)) bid uid)) bid
           = getBooking (snd (cancelBooking bs bid uid)) bid"
  by (auto simp: cancelBooking_def getBooking_def split: option.splits if_splits)

theorem cancel_retains_record_and_repeats_witness:
  "fst (cancelBooking bookedByA ''booking_1705392000000_k3x9q2m1z'' ''A'')
   \<and> getBooking (snd (cancelBooking bookedByA ''booking_1705392000000_k3x9q2m1z'' ''A''))
         ''booking_1705392000000_k3x9q2m1z''
       = Some (bookingOfA\<lparr>status := CANCELLED\<rparr>)"
proof -
  have h: "fst (cancelBooking bookedByA ''booking_1705392000000_k3x9q2m1z'' ''A'')"
    by code_simp
  have b: "bookings bookedByA ''booking_1705392000000_k3x9q2m1z'' = Some bookingOfA"
    by code_simp
  show ?thesis
    using cancel_retains_record_and_repeats [OF h] h b by auto
qed

text \<open>
  Against C7 as stated: owner A books, then cancels twice; the second cancellation returns
  true, not false.
\<close>

theorem second_cancel_returns_true:
  "fst (cancelBooking bookedByA ''booking_1705392000000_k3x9q2m1z'' ''A'')
   \<and> fst (cancelBooking
            (snd (cancelBooking bookedByA ''booking_1705392000000_k3x9q2m1z'' ''A''))
            ''booking_1705392000000_k3x9q2m1z'' ''A'')"
  by code_simp


section \<open>Reservations\<close>

lemma reserveSlot_True:
  assumes "reserveSlot now bs sid uid = (True, bs')"
  shows "sid \<in> reservedSlots (calendarService bs')"
    and "reservations bs' sid = Some \<lparr>userId = uid, expiresAt = now + RESERVATION_TIMEOUT\<rparr>"
    and "\<not> has (bookedSlots (calendarService bs')) sid"
  using assms
  by (auto simp: reserveSlot_def cal_reserveSlot_def isSlotAvailable_def
      split: if_splits option.splits)

lemma fst_reserveSlot_heldByA:
  "reserveSlot t0 emptyService ''2024-01-16_09:00'' ''A'' = (True, heldByA)"
proof -
  have "fst (reserveSlot t0 emptyService ''2024-01-16_09:00'' ''A'')"
    by code_simp
  then show ?thesis
    by (simp add: heldByA_def prod_eq_iff)
qed

lemma validContact_isValid: "isValid (validateContactInfo validContact)"
  by code_simp

text \<open>
  C1, evaluated on the code. Once \<open>reserveSlot\<close> has succeeded for an owner, the
  calendar lists the slot as reserved, so \<open>createBooking\<close> with a valid contact stops
  at its availability check and returns the slot-unavailable error: for the owner of the
  reservation as well as for any other user.
\<close>

theorem createBooking_on_reserved_slot:
  "reserveSlot now bs sid owner = (True, bs') \<and> isValid (validateContactInfo ci)
     \<and> slotId ts = sid
   \<longrightarrow> createBooking now' rnd1 rnd2 bs' ci ts uid = (Inl SlotUnavailable, bs')"
proof (intro impI, elim conjE)
  assume r: "reserveSlot now bs sid owner = (True, bs')"
    and v: "isValid (validateContactInfo ci)" and s: "slotId ts = sid"
  from reserveSlot_True(1) [OF r] have "\<not> isSlotAvailable (calendarService bs') sid"
    by (simp add: isSlotAvailable_def)
  with v s show "createBooking now' rnd1 rnd2 bs' ci ts uid = (Inl SlotUnavailable, bs')"
    by (simp add: createBooking_def)
qed

theorem createBooking_on_reserved_slot_witness:
  "createBooking (t0 + 1000) ''k3x9q2m1z'' ''7fq2'' heldByA validContact slot0900 ''A''
     = (Inl SlotUnavailable, heldByA)
   \<and> createBooking (t0 + 1000) ''k3x9q2m1z'' ''7fq2'' heldByA validContact slot0900 ''B''
     = (Inl SlotUnavailable, heldByA)"
proof -
  have s: "slotId slot0900 = ''2024-01-16_09:00''"
    by (simp add: slot0900_def)
  show ?thesis
    using createBooking_on_reserved_slot
      [of t0 emptyService "''2024-01-16_09:00''" "''A''" heldByA validContact slot0900]
      fst_reserveSlot_heldByA validContact_isValid s
    by blast
qed

text \<open>
  C2, evaluated on the code. From the fresh service the four calls return true, false,
  true and false: \<open>releaseReservation\<close> forgets the owner's entry but leaves the slot in
  the calendar's reserved set, so the next owner is still refused.
\<close>

theorem reserve_release_reserve_sequence:
  "fst (reserveSlot t0 emptyService ''2024-01-16_09:00'' ''A'')
   \<and> \<not> fst (reserveSlot (t0 + 1000) heldByA ''2024-01-16_09:00'' ''B'')
   \<and> fst (releaseReservation refusedB ''2024-01-16_09:00'' ''A'')
   \<and> \<not> fst (reserveSlot (t0 + 2000) releasedByA ''2024-01-16_09:00'' ''B'')"
  by code_simp

text \<open>
  C3, evaluated on the code. After a successful \<open>reserveSlot\<close>, a second call for the
  same slot returns false and changes nothing, whoever asks: the expiry of the owner's
  own hold is not refreshed.
\<close>

theorem second_reserveSlot_refused:
  "reserveSlot now bs sid owner = (True, bs')
   \<longrightarrow> reserveSlot now' bs' sid uid = (False, bs')
       \<and> reservations bs' sid = Some \<lparr>userId = owner, expiresAt = now + RESERVATION_TIMEOUT\<rparr>"
proof
  assume r: "reserveSlot now bs sid owner = (True, bs')"
  from reserveSlot_True(1) [OF r] have "\<not> isSlotAvailable (calendarService bs') sid"
    by (simp add: isSlotAvailable_def)
  then have "reserveSlot now' bs' sid uid = (False, bs')"
    by (simp add: reserveSlot_def)
  with reserveSlot_True(2) [OF r]
  show "reserveSlot now' bs' sid uid = (False, bs')
       \<and> reservations bs' sid = Some \<lparr>userId = owner, expiresAt = now + RESERVATION_TIMEOUT\<rparr>"
    by simp
qed

theorem second_reserveSlot_refused_witness:
  "reserveSlot (t0 + 1000) heldByA ''2024-01-16_09:00'' ''A'' = (False, heldByA)
   \<and> reservations heldByA ''2024-01-16_09:00''
       = Some \<lparr>userId = ''A'', expiresAt = t0 + RESERVATION_TIMEOUT\<rparr>"
  using second_reserveSlot_refused
    [of t0 emptyService "''2024-01-16_09:00''" "''A''" heldByA "t0 + 1000" "''A''"]
    fst_reserveSlot_heldByA
  by blast

section \<open>Expiry of a reservation\<close>






section \<open>Validation in createBooking\<close>

lemma seq_Eps: "seq Eps s = s"
  by (cases s) simp_all

lemma deriv_upTo_digit:
  "isDigit c \<Longrightarrow> deriv c (upTo (Suc n) (Cls digitChars)) = upTo n (Cls digitChars)"
  by (simp add: Opt_def seq_Eps isDigit_def digitChars_def)

lemma foldl_deriv_upTo:
  "list_all isDigit ds \<Longrightarrow> length ds \<le> n
   \<Longrightarrow> foldl (\<lambda>r c. deriv c r) (upTo n (Cls digitChars)) ds
       = upTo (n - length ds) (Cls digitChars)"
proof (induction ds arbitrary: n)
  case Nil
  then show ?case by simp
next
  case (Cons d ds)
  then obtain k where k: "n = Suc k" by (cases n) auto
  with Cons.prems have "isDigit d" "list_all isDigit ds" "length ds \<le> k" by simp_all
  with Cons.IH [of k] k show ?case
    by (simp add: deriv_upTo_digit del: upTo.simps)
qed

lemma nullable_upTo: "nullable (upTo k r)"
  by (cases k) (simp_all add: Opt_def)

lemma phoneRegex_digits:
  assumes "list_all isDigit p" and "p \<noteq> []" and "hd p \<noteq> CHR ''0''" and "length p \<le> 16"
  shows "matches phoneRegex p"
proof -
  from assms(2) obtain d ds where p: "p = d # ds" by (cases p) auto
  with assms have d: "isDigit d" "d \<noteq> CHR ''0''" and ds: "list_all isDigit ds" "length ds \<le> 15"
    by simp_all
  from d have "d \<in> set ''123456789''" "d \<noteq> CHR ''+''"
    by (auto simp: isDigit_def)
  then have "deriv d phoneRegex = upTo 15 (Cls digitChars)"
    by (simp add: phoneRegex_def Opt_def seq_Eps del: upTo.simps)
  with ds p show ?thesis
    by (simp add: matches_def foldl_deriv_upTo nullable_upTo del: upTo.simps)
qed

lemma sanitizeString_digits:
  assumes "list_all isDigit p" and "length p \<le> 255"
  shows "sanitizeString p = p"
proof -
  have "filter (\<lambda>c. c \<notin> set [CHR ''<'', CHR ''>'', CHR 0x22, CHR 0x27, CHR ''&'']) p = p"
    using assms(1) by (induction p) (auto simp: isDigit_def)
  with assms show ?thesis
    by (simp add: sanitizeString_def trim_digits)
qed

lemma cleanPhone_digits:
  "list_all isDigit p \<Longrightarrow> filter (\<lambda>c. \<not> isSpace c \<and> c \<notin> set ''-()'') p = p"
  by (induction p) (auto simp: isDigit_def isSpace_def)

text \<open>
  C4, as the code has it. For the contact \<open>{name: "J", email: "bad", phone: "1"}\<close>
  \<open>createBooking\<close> fails validation in every state and changes nothing; the failure
  carries exactly two errors, for the name and for the email, whose messages make up the
  error text. There is none for the phone: the phone check of \<open>createBooking\<close> asks for
  no ten digits, and every phone that consists of one to sixteen digits, the first not 0,
  passes it, whatever the other fields are.
\<close>

theorem createBooking_shortContact:
  "createBooking now rnd1 rnd2 bs shortContact ts uid
     = (Inl (ValidationFailed [nameTooShort, invalidEmail]), bs)
   \<and> errorMessage (ValidationFailed [nameTooShort, invalidEmail])
     = ''Validation failed: Name must be at least 2 characters long, ''
         @ ''Please enter a valid email address''
   \<and> (list_all isDigit p \<and> p \<noteq> [] \<and> hd p \<noteq> CHR ''0'' \<and> length p \<le> 16
      \<longrightarrow> filter (\<lambda>e. field e = ''phone'') (errors (validateContactInfo (ci\<lparr>phone := p\<rparr>)))
            = [])"
proof (intro conjI impI)
  have v: "validateContactInfo shortContact
             = \<lparr>isValid = False, errors = [nameTooShort, invalidEmail]\<rparr>"
    by code_simp
  then show "createBooking now rnd1 rnd2 bs shortContact ts uid
                 = (Inl (ValidationFailed [nameTooShort, invalidEmail]), bs)"
    by (simp add: createBooking_def)
  show "errorMessage (ValidationFailed [nameTooShort, invalidEmail])
             = ''Validation failed: Name must be at least 2 characters long, ''
                 @ ''Please enter a valid email address''"
    by code_simp
next
  assume a: "list_all isDigit p \<and> p \<noteq> [] \<and> hd p \<noteq> CHR ''0'' \<and> length p \<le> 16"
  then have s: "sanitizeString p = p"
    by (intro sanitizeString_digits) simp_all
  from a have m: "matches phoneRegex p"
    by (intro phoneRegex_digits) simp_all
  from a have c: "filter (\<lambda>c. \<not> isSpace c \<and> c \<notin> set ''-()'') p = p"
    by (intro cleanPhone_digits) simp
  from a s m c show "filter (\<lambda>e. field e = ''phone'')
                       (errors (validateContactInfo (ci\<lparr>phone := p\<rparr>))) = []"
    by (simp add: validateContactInfo_def Let_def)
qed

theorem createBooking_shortContact_witness:
  "list_all isDigit ''1'' \<and> hd ''1'' \<noteq> CHR ''0'' \<and> length ''1'' \<le> (16::nat)
   \<and> filter (\<lambda>e. field e = ''phone'') (errors (validateContactInfo shortContact)) = []
   \<and> createBooking t0 ''k3x9q2m1z'' ''7fq2'' emptyService shortContact slot0900 ''A''
     = (Inl (ValidationFailed [nameTooShort, invalidEmail]), emptyService)"
proof -
  have d: "list_all isDigit ''1'' \<and> ''1'' \<noteq> [] \<and> hd ''1'' \<noteq> CHR ''0'' \<and> length ''1'' \<le> (16::nat)"
    by (simp add: isDigit_def)
  have c: "shortContact\<lparr>phone := ''1''\<rparr> = shortContact"
    by (simp add: shortContact_def)
  show ?thesis
    using createBooking_shortContact
      [of t0 "''k3x9q2m1z''" "''7fq2''" emptyService slot0900 "''A''" "''1''" shortContact]
      d c
    by simp
qed

lemma validatePhone_one:
  "validatePhone ''1''
     = Some \<lparr>field = ''phone'', errType = INVALID_PHONE,
             message = ''Please enter a valid phone number (e.g., (123) 456-7890)''\<rparr>"
  by code_simp

text \<open>
  Against C4 as stated: the failure for that contact carries two errors, not three, and
  none for the phone.
\<close>

theorem shortContact_two_errors:
  "fst (createBooking t0 ''k3x9q2m1z'' ''7fq2'' emptyService shortContact slot0900 ''A'')
     = Inl (ValidationFailed (errors (validateContactInfo shortContact)))
   \<and> map field (errors (validateContactInfo shortContact)) = [''name'', ''email'']
   \<and> length (errors (validateContactInfo shortContact)) = 2"
  by code_simp



section \<open>Looking a slot up by its id\<close>




section \<open>Slot generation\<close>


















text \<open>
  West of UTC the weekday test reads the local day of an instant that is still the evening
  before: at UTC minus five hours Saturday 2024-01-13 gets its two slots, and Sunday the
  14th and Monday the 15th get none.
\<close>

lemma generateTimeSlots_west_of_UTC:
  "parseDate ''2024-01-13'' = Num 1705104000000 \<and> utcDay 1705104000000 = 6
   \<and> datesOf (generateTimeSlots (fixedZone (- 18000000)) emptyCalendar ''2024-01-13''
                ''2024-01-15'' ''09:00'' ''10:00'' 30)
     = [''2024-01-13'', ''2024-01-13'']"
  by code_simp

text \<open>
  Across the change to summer time the loop steps 23 hours once and from then on stands
  an hour before midnight UTC: in Berlin the range from Friday 2024-03-29 to Tuesday
  2024-04-02 gets slots dated 03-29, 03-31 (the Sunday, for the local Monday) and 04-01,
  and none dated 04-02.
\<close>

lemma generateTimeSlots_across_summer_time:
  "datesOf (generateTimeSlots berlin2024 emptyCalendar ''2024-03-29'' ''2024-04-02''
              ''09:00'' ''10:00'' 30)
     = [''2024-03-29'', ''2024-03-29'', ''2024-03-31'', ''2024-03-31'',
        ''2024-04-01'', ''2024-04-01'']"
  by code_simp


end
